theory Spec2Isabelle
  imports Complex_Main
begin

section \<open>Python values used by the plugin\<close>

text \<open>
  A Python \<open>str\<close> is a sequence of Unicode code points, so it is modelled as a list of
  code points; \<open>py\<close> writes an ASCII literal of the source.
\<close>

type_synonym pystr = "nat list"

definition py :: "string \<Rightarrow> pystr" where
  "py s = map of_char s"

text \<open>\<open>s.startswith(p)\<close>, \<open>needle in s\<close> and the whitespace of \<open>str.strip\<close> / \<open>str.lstrip\<close>
  (the code points for which \<open>str.isspace\<close> holds).\<close>

definition py_startswith :: "pystr \<Rightarrow> pystr \<Rightarrow> bool" where
  "py_startswith s p = (take (length p) s = p)"

fun py_contains :: "pystr \<Rightarrow> pystr \<Rightarrow> bool" where
  "py_contains needle [] = (needle = [])"
| "py_contains needle (c # s) = (py_startswith (c # s) needle \<or> py_contains needle s)"

definition py_isspace :: "nat \<Rightarrow> bool" where
  "py_isspace c = ((9 \<le> c \<and> c \<le> 13) \<or> (28 \<le> c \<and> c \<le> 32) \<or> c = 133 \<or> c = 160
     \<or> c = 5760 \<or> (8192 \<le> c \<and> c \<le> 8202) \<or> c = 8232 \<or> c = 8233 \<or> c = 8239
     \<or> c = 8287 \<or> c = 12288)"

definition py_lstrip :: "pystr \<Rightarrow> pystr" where
  "py_lstrip s = dropWhile py_isspace s"

definition py_strip :: "pystr \<Rightarrow> pystr" where
  "py_strip s = rev (dropWhile py_isspace (rev (dropWhile py_isspace s)))"

text \<open>
  The values \<open>json.loads\<close> produces. A float is the rational it denotes, an infinity
  (\<open>FInf True\<close> is the negative one) or NaN; the sign of a zero is not kept, the program
  never observes it. A dict is an association list in insertion order, read with
  \<open>map_of\<close>.
\<close>

datatype pyfloat = FFin rat | FInf bool | FNaN

datatype json =
    JNull
  | JBool bool
  | JInt int
  | JFloat pyfloat
  | JStr pystr
  | JArr "json list"
  | JObj "(pystr \<times> json) list"

text \<open>Truth value of a Python object (\<open>if x:\<close>, \<open>x or y\<close>).\<close>

fun truthy :: "json \<Rightarrow> bool" where
  "truthy JNull = False"
| "truthy (JBool b) = b"
| "truthy (JInt i) = (i \<noteq> 0)"
| "truthy (JFloat f) = (f \<noteq> FFin 0)"
| "truthy (JStr s) = (s \<noteq> [])"
| "truthy (JArr xs) = (xs \<noteq> [])"
| "truthy (JObj kvs) = (kvs \<noteq> [])"

definition py_or :: "json \<Rightarrow> json \<Rightarrow> json" where
  "py_or a b = (if truthy a then a else b)"

text \<open>\<open>x == 0\<close>: \<open>False\<close>, \<open>0\<close> and \<open>0.0\<close> are equal to \<open>0\<close>, nothing else is.\<close>

fun eq_zero :: "json \<Rightarrow> bool" where
  "eq_zero (JBool b) = (\<not> b)"
| "eq_zero (JInt i) = (i = 0)"
| "eq_zero (JFloat f) = (f = FFin 0)"
| "eq_zero _ = False"

text \<open>\<open>d.get(k)\<close> (\<open>None\<close> when the key is missing) and \<open>d.get(k, default)\<close>.\<close>

definition dict_get :: "(pystr \<times> json) list \<Rightarrow> pystr \<Rightarrow> json" where
  "dict_get d k = (case map_of d k of None \<Rightarrow> JNull | Some v \<Rightarrow> v)"

definition dict_get_default :: "(pystr \<times> json) list \<Rightarrow> pystr \<Rightarrow> json \<Rightarrow> json" where
  "dict_get_default d k dflt = (case map_of d k of None \<Rightarrow> dflt | Some v \<Rightarrow> v)"

section \<open>A decoder for JSON text (\<open>json.loads\<close>)\<close>

text \<open>
  The functions of the plugin take the decoder as a parameter \<open>loads\<close>, so what is proved
  of them holds for every decoder. \<open>json_loads\<close> below is the decoder the concrete runs
  use. It follows the grammar \<open>json.loads\<close> accepts: leading and trailing blanks, the
  literals (with \<open>NaN\<close>, \<open>Infinity\<close> and \<open>-Infinity\<close>), integers of any size, floats
  rounded to the nearest double, strings in strict mode with their escapes (a surrogate
  pair of \<open>\\u\<close> escapes is joined), arrays, and objects whose repeated key keeps its
  first position and its last value. \<open>None\<close> is a raised exception. The interpreter's
  limits on nesting depth and on the digits of an integer are not modelled.
\<close>

definition is_ws :: "nat \<Rightarrow> bool" where
  "is_ws c = (c = 0x20 \<or> c = 0x09 \<or> c = 0x0A \<or> c = 0x0D)"

definition skip_ws :: "pystr \<Rightarrow> pystr" where
  "skip_ws s = dropWhile is_ws s"

definition is_digit :: "nat \<Rightarrow> bool" where
  "is_digit c = (0x30 \<le> c \<and> c \<le> 0x39)"

definition hexval :: "nat \<Rightarrow> nat option" where
  "hexval c =
     (if 0x30 \<le> c \<and> c \<le> 0x39 then Some (c - 0x30)
      else if 0x41 \<le> c \<and> c \<le> 0x46 then Some (c - 0x41 + 10)
      else if 0x61 \<le> c \<and> c \<le> 0x66 then Some (c - 0x61 + 10)
      else None)"

text \<open>The four hexadecimal digits of a \<open>\\u\<close> escape.\<close>

definition hex4 :: "pystr \<Rightarrow> nat option" where
  "hex4 s =
     (case map hexval (take 4 s) of
        [Some a, Some b, Some c, Some d] \<Rightarrow> Some (((a * 16 + b) * 16 + c) * 16 + d)
      | _ \<Rightarrow> None)"

definition simple_escape :: "nat \<Rightarrow> nat option" where
  "simple_escape e =
     (if e = 0x22 then Some 0x22
      else if e = 0x5C then Some 0x5C
      else if e = 0x2F then Some 0x2F
      else if e = 0x62 then Some 0x08
      else if e = 0x66 then Some 0x0C
      else if e = 0x6E then Some 0x0A
      else if e = 0x72 then Some 0x0D
      else if e = 0x74 then Some 0x09
      else None)"

text \<open>The text of a string after its opening quote: the decoded string and the input
  after the closing quote.\<close>

fun scan_string :: "pystr \<Rightarrow> pystr \<Rightarrow> (pystr \<times> pystr) option" where
  "scan_string [] acc = None"
| "scan_string (c # r) acc =
     (if c = 0x22 then Some (acc, r)
      else if c < 0x20 then None
      else if c \<noteq> 0x5C then scan_string r (acc @ [c])
      else (case r of
              [] \<Rightarrow> None
            | e # r' \<Rightarrow>
                if e = 0x75 then
                  (case hex4 r' of
                     None \<Rightarrow> None
                   | Some u \<Rightarrow>
                       if length r' < 4 then None
                       else if 0xD800 \<le> u \<and> u \<le> 0xDBFF \<and> take 2 (drop 4 r') = [0x5C, 0x75] then
                         (case hex4 (drop 6 r') of
                            None \<Rightarrow> None
                          | Some u2 \<Rightarrow>
                              if length r' < 10 then None
                              else if 0xDC00 \<le> u2 \<and> u2 \<le> 0xDFFF
                              then scan_string (drop 10 r')
                                     (acc @ [0x10000 + (u - 0xD800) * 1024 + (u2 - 0xDC00)])
                              else scan_string (drop 4 r') (acc @ [u]))
                       else scan_string (drop 4 r') (acc @ [u]))
                else (case simple_escape e of
                        None \<Rightarrow> None
                      | Some x \<Rightarrow> scan_string r' (acc @ [x]))))"

text \<open>Numbers: the value of a run of decimal digits, and rounding to a double
  (to nearest, ties to even).\<close>

definition digits_val :: "pystr \<Rightarrow> nat" where
  "digits_val ds = foldl (\<lambda>n c. 10 * n + (c - 0x30)) 0 ds"

fun ilog2 :: "nat \<Rightarrow> nat" where
  "ilog2 n = (if n < 2 then 0 else Suc (ilog2 (n div 2)))"

definition pow2 :: "int \<Rightarrow> rat" where
  "pow2 e = (if 0 \<le> e then 2 ^ nat e else 1 / 2 ^ nat (- e))"

definition round_half_even :: "rat \<Rightarrow> int" where
  "round_half_even r =
     (let f = \<lfloor>r\<rfloor>; d = r - of_int f
      in if d < 1 / 2 then f else if 1 / 2 < d then f + 1 else if even f then f else f + 1)"

definition float_of_rat :: "rat \<Rightarrow> pyfloat" where
  "float_of_rat x =
     (if x = 0 then FFin 0
      else
        (let a = \<bar>x\<bar>;
             e0 = int (ilog2 (nat (fst (quotient_of a)))) - int (ilog2 (nat (snd (quotient_of a))));
             e = (if pow2 e0 \<le> a then e0 else e0 - 1);
             s = max (e - 52) (- 1074);
             v = of_int (round_half_even (a / pow2 s)) * pow2 s
         in if pow2 1024 \<le> v then FInf (x < 0) else FFin (if x < 0 then - v else v)))"

text \<open>
  A number literal \<open>-?(0|[1-9][0-9]*)(\.[0-9]+)?([eE][-+]?[0-9]+)?\<close> at the head of the
  input, part by part: the digits of the integer part, of the fraction (none when the
  group does not match) and of the exponent with its sign, each with the input that
  follows.
\<close>

definition scan_int_part :: "pystr \<Rightarrow> (pystr \<times> pystr) option" where
  "scan_int_part s =
     (if take 1 s = [0x30] then Some ([0x30], drop 1 s)
      else if takeWhile is_digit s = [] then None
      else Some (takeWhile is_digit s, dropWhile is_digit s))"

definition scan_frac :: "pystr \<Rightarrow> pystr \<times> pystr" where
  "scan_frac s =
     (if take 1 s = [0x2E] \<and> takeWhile is_digit (drop 1 s) \<noteq> []
      then (takeWhile is_digit (drop 1 s), dropWhile is_digit (drop 1 s))
      else ([], s))"

definition scan_sign :: "pystr \<Rightarrow> bool \<times> pystr" where
  "scan_sign s =
     (if take 1 s = [0x2D] then (True, drop 1 s)
      else if take 1 s = [0x2B] then (False, drop 1 s)
      else (False, s))"

definition scan_exp :: "pystr \<Rightarrow> (bool \<times> pystr) option \<times> pystr" where
  "scan_exp s =
     (if take 1 s = [0x65] \<or> take 1 s = [0x45] then
        (case scan_sign (drop 1 s) of
           (eneg, t) \<Rightarrow>
             if takeWhile is_digit t = [] then (None, s)
             else (Some (eneg, takeWhile is_digit t), dropWhile is_digit t))
      else (None, s))"

text \<open>The float a literal with a fraction or an exponent denotes.\<close>

definition float_of_literal :: "bool \<Rightarrow> pystr \<Rightarrow> pystr \<Rightarrow> (bool \<times> pystr) option \<Rightarrow> pyfloat" where
  "float_of_literal neg ip fd ex =
     (let m = of_nat (digits_val (ip @ fd)) :: rat;
          e = (case ex of
                 None \<Rightarrow> 0
               | Some (eneg, ed) \<Rightarrow> if eneg then - int (digits_val ed) else int (digits_val ed))
              - int (length fd);
          v = (if 0 \<le> e then m * 10 ^ nat e else m / 10 ^ nat (- e))
      in float_of_rat (if neg then - v else v))"

text \<open>The number: an integer when the literal has neither fraction nor exponent.\<close>

definition scan_number :: "pystr \<Rightarrow> (json \<times> pystr) option" where
  "scan_number s =
     (case scan_int_part (if take 1 s = [0x2D] then drop 1 s else s) of
        None \<Rightarrow> None
      | Some (ip, s2) \<Rightarrow>
          (case scan_frac s2 of
             (fd, s3) \<Rightarrow>
               (case scan_exp s3 of
                  (ex, s4) \<Rightarrow>
                    if fd = [] \<and> ex = None then
                      Some (JInt (if take 1 s = [0x2D] then - int (digits_val ip)
                                  else int (digits_val ip)), s4)
                    else Some (JFloat (float_of_literal (take 1 s = [0x2D]) ip fd ex), s4))))"

text \<open>A dict assignment \<open>d[k] = v\<close>: a known key keeps its position.\<close>

fun dict_set :: "(pystr \<times> json) list \<Rightarrow> pystr \<Rightarrow> json \<Rightarrow> (pystr \<times> json) list" where
  "dict_set [] k v = [(k, v)]"
| "dict_set ((k', v') # d) k v = (if k' = k then (k, v) # d else (k', v') # dict_set d k v)"

text \<open>
  A value at the head of the input, the rest of an array after \<open>[\<close>, and the rest of an
  object after \<open>{\<close>. The first argument is fuel. Going one
  level down takes at most two calls and leaves the closing bracket of the level in the
  input, and every other call consumes input, so a text that decodes never uses up the
  fuel \<open>json_loads\<close> starts with.
\<close>

fun parse_value :: "nat \<Rightarrow> pystr \<Rightarrow> (json \<times> pystr) option"
  and parse_elems :: "nat \<Rightarrow> pystr \<Rightarrow> json list \<Rightarrow> (json \<times> pystr) option"
  and parse_members :: "nat \<Rightarrow> pystr \<Rightarrow> (pystr \<times> json) list \<Rightarrow> (json \<times> pystr) option" where
  "parse_value 0 s = None"
| "parse_value (Suc n) s =
     (if take 1 s = [0x22] then
        (case scan_string (drop 1 s) [] of
           None \<Rightarrow> None
         | Some (str, r) \<Rightarrow> Some (JStr str, r))
      else if take 1 s = [0x7B] then
        (let r = skip_ws (drop 1 s)
         in if take 1 r = [0x7D] then Some (JObj [], drop 1 r) else parse_members n r [])
      else if take 1 s = [0x5B] then
        (let r = skip_ws (drop 1 s)
         in if take 1 r = [0x5D] then Some (JArr [], drop 1 r) else parse_elems n r [])
      else if py_startswith s (py ''null'') then Some (JNull, drop 4 s)
      else if py_startswith s (py ''true'') then Some (JBool True, drop 4 s)
      else if py_startswith s (py ''false'') then Some (JBool False, drop 5 s)
      else (case scan_number s of
              Some res \<Rightarrow> Some res
            | None \<Rightarrow>
                if py_startswith s (py ''NaN'') then Some (JFloat FNaN, drop 3 s)
                else if py_startswith s (py ''Infinity'') then Some (JFloat (FInf False), drop 8 s)
                else if py_startswith s (py ''-Infinity'') then Some (JFloat (FInf True), drop 9 s)
                else None))"
| "parse_elems 0 s acc = None"
| "parse_elems (Suc n) s acc =
     (case parse_value n s of
        None \<Rightarrow> None
      | Some (v, r) \<Rightarrow>
          (let r1 = skip_ws r
           in if take 1 r1 = [0x5D] then Some (JArr (acc @ [v]), drop 1 r1)
              else if take 1 r1 = [0x2C] then parse_elems n (skip_ws (drop 1 r1)) (acc @ [v])
              else None))"
| "parse_members 0 s acc = None"
| "parse_members (Suc n) s acc =
     (if take 1 s \<noteq> [0x22] then None
      else (case scan_string (drop 1 s) [] of
              None \<Rightarrow> None
            | Some (k, r) \<Rightarrow>
                (let r1 = skip_ws r
                 in if take 1 r1 \<noteq> [0x3A] then None
                    else (case parse_value n (skip_ws (drop 1 r1)) of
                            None \<Rightarrow> None
                          | Some (v, r2) \<Rightarrow>
                              (let r3 = skip_ws r2
                               in if take 1 r3 = [0x7D] then Some (JObj (dict_set acc k v), drop 1 r3)
                                  else if take 1 r3 = [0x2C]
                                  then parse_members n (skip_ws (drop 1 r3)) (dict_set acc k v)
                                  else None)))))"

definition json_loads :: "pystr \<Rightarrow> json option" where
  "json_loads s =
     (if take 1 s = [0xFEFF] then None
      else (case parse_value (Suc (length s)) (skip_ws s) of
              None \<Rightarrow> None
            | Some (v, r) \<Rightarrow> if skip_ws r = [] then Some v else None))"

section \<open>Message texts of the source\<close>

definition MSG_BRANCH :: pystr where
  "MSG_BRANCH = [0x26a0, 0xfe0f, 0x20, 0x68c0, 0x6d4b, 0x5230, 0x5bf9, 0x8bdd, 0x5206, 0x652f,
     0x672a, 0x9009, 0x62e9, 0xff0c, 0x8bf7, 0x91cd, 0x8bd5, 0x6216, 0x65b0, 0x5efa, 0x4f1a,
     0x8bdd, 0x3002]"

definition MSG_FAIL :: pystr where
  "MSG_FAIL = [0x8bf7, 0x6c42, 0x5931, 0x8d25, 0xff0c, 0x8bf7, 0x7a0d, 0x540e, 0x518d, 0x8bd5,
     0x3002]"

definition KW_ORANGE :: pystr where
  "KW_ORANGE = [0x6a58, 0x732b]"

definition KW_EXOTIC :: pystr where
  "KW_EXOTIC = [0x9ed1, 0x732b]"

definition MSG_SPECIFY :: pystr where
  "MSG_SPECIFY = [0x8bf7, 0x6307, 0x5b9a, 0x8981, 0x5207, 0x6362, 0x7684, 0x6a21, 0x578b, 0xff1a,
     0x6a58, 0x732b, 0x20, 0x2f, 0x20, 0x9ed1, 0x732b]"

definition MSG_SWITCH_NO_SESSION :: pystr where
  "MSG_SWITCH_NO_SESSION = [0x274c, 0x20, 0x5207, 0x6362, 0x5931, 0x8d25, 0xff1a, 0x65e0, 0x6cd5,
     0x521b, 0x5efa, 0x4f1a, 0x8bdd]"

definition MSG_SWITCHED :: "pystr \<Rightarrow> pystr" where
  "MSG_SWITCHED target_name = [0x2728, 0x20, 0x5df2, 0x5207, 0x6362, 0x4e3a, 0xff1a] @ target_name"

definition MSG_SWITCH_FAILED :: "pystr \<Rightarrow> pystr" where
  "MSG_SWITCH_FAILED target_name =
     [0x274c, 0x20, 0x5207, 0x6362, 0x4e3a, 0x20] @ target_name @ [0x20, 0x5931, 0x8d25]"

definition MSG_CREATED :: "pystr \<Rightarrow> pystr" where
  "MSG_CREATED model_name =
     [0x5df2, 0x521b, 0x5efa, 0x65b0, 0x7684, 0x4f1a, 0x8bdd, 0xff08, 0x5f53, 0x524d, 0x6a21,
      0x578b, 0xff1a] @ model_name @ [0xff09, 0xff01]"

definition MSG_CREATE_FAIL :: pystr where
  "MSG_CREATE_FAIL = [0x274c, 0x20, 0x521b, 0x5efa, 0x4f1a, 0x8bdd, 0x5931, 0x8d25, 0xff0c,
     0x8bf7, 0x7a0d, 0x540e, 0x518d, 0x8bd5, 0x3002]"

definition MSG_PROMPT :: pystr where
  "MSG_PROMPT = [0x2757, 0x20, 0x8bf7, 0x8f93, 0x5165, 0x5185, 0x5bb9, 0xff0c, 0x4f8b, 0x5982,
     0xff1a, 0x2f, 0x63, 0x68, 0x61, 0x74, 0x20, 0x4f60, 0x597d]"

text \<open>The configuration, reduced to the field that reaches a returned string, and its
  default.\<close>

record AnunekoConfig =
  WATERMARK :: pystr

definition default_config :: AnunekoConfig where
  "default_config = \<lparr>WATERMARK = [0xa, 0xa, 0x2014, 0x2014, 0x20, 0x5185, 0x5bb9, 0x7531, 0x20,
     0x61, 0x6e, 0x75, 0x6e, 0x65, 0x6b, 0x6f, 0x2e, 0x63, 0x6f, 0x6d, 0x20, 0x63d0, 0x4f9b,
     0xff0c, 0x8be5, 0x670d, 0x52a1, 0x53ea, 0x662f, 0x4e00, 0x4e2a, 0x7b2c, 0x4e09, 0x65b9,
     0x524d, 0x7aef]\<rparr>"

section \<open>The in-memory store and the backend\<close>

text \<open>
  The requests the plugin sends to the backend: the model of a new session, the session
  and model of a model selection, the message of a branch selection, the session and
  text of a streamed message.
\<close>

datatype request =
    CreateSession pystr
  | SelectModel json pystr
  | SelectChoice json
  | Stream json pystr

text \<open>
  The module's two dictionaries, \<open>user_sessions\<close> (user to chat id; the chat id is whatever
  value the backend's JSON held) and \<open>user_models\<close> (user to backend model name), with
  the requests sent so far, in order.
\<close>

record state =
  user_sessions :: "pystr \<rightharpoonup> json"
  user_models :: "pystr \<rightharpoonup> pystr"
  sent :: "request list"

text \<open>
  The outcome of \<open>client.post\<close>: an exception of the transport, or a response with its
  status code and body. \<open>raise_for_status\<close> raises unless the status is 2xx.
\<close>

datatype http_result = NetworkFault | Response nat pystr

definition raise_for_status :: "nat \<Rightarrow> bool" where
  "raise_for_status status = (\<not> (200 \<le> status \<and> status \<le> 299))"

section \<open>The streaming decoder and aggregator (\<open>_stream_reply\<close>)\<close>

text \<open>
  What \<open>resp.aiter_lines()\<close> delivers: a line, or an exception of the transport
  (\<open>Fault\<close>: connection error, timeout), which ends the iteration. A failure to open
  the stream is a \<open>Fault\<close> in first place.
\<close>

datatype stream_item = Line pystr | Fault

text \<open>The two local variables of the loop.\<close>

record agg =
  result :: pystr
  current_msg_id :: json

text \<open>
  One iteration of \<open>for choice in j["c"]\<close>. \<open>None\<close> is an exception raised by the body:
  \<open>choice.get\<close> on something that is no dict (AttributeError), or \<open>result += v\<close> with a
  \<open>v\<close> that is no string (TypeError).
\<close>

definition choice_step :: "json \<Rightarrow> pystr \<Rightarrow> pystr option" where
  "choice_step choice res =
     (case choice of
        JObj d \<Rightarrow>
          if eq_zero (dict_get_default d (py ''c'') (JInt 0)) \<and> map_of d (py ''v'') \<noteq> None
          then (case map_of d (py ''v'') of
                  Some (JStr v) \<Rightarrow> Some (res @ v)
                | _ \<Rightarrow> None)
          else Some res
      | _ \<Rightarrow> None)"

text \<open>
  The loop over the choices. An exception leaves the loop and the rest of the line
  (\<open>except Exception: continue\<close>); what was appended before stays in \<open>result\<close>.
\<close>

fun choices_loop :: "json list \<Rightarrow> pystr \<Rightarrow> pystr" where
  "choices_loop [] res = res"
| "choices_loop (choice # rest) res =
     (case choice_step choice res of
        None \<Rightarrow> res
      | Some res' \<Rightarrow> choices_loop rest res')"

text \<open>
  The body of the second \<open>try\<close> after \<open>j = json.loads(raw)\<close>. For a \<open>j\<close> that is no dict
  every path raises before it assigns (\<open>"msg_id" in j\<close> raises TypeError on a number,
  a bool or \<open>None\<close>; on a list or a string a successful membership test is followed by
  \<open>j["msg_id"]\<close>, \<open>j["c"]\<close> or \<open>j["v"]\<close>, which raises TypeError) or assigns nothing.
\<close>

definition on_record :: "json \<Rightarrow> agg \<Rightarrow> agg" where
  "on_record j a =
     (case j of
        JObj d \<Rightarrow>
          (let a1 = (case map_of d (py ''msg_id'') of
                       Some m \<Rightarrow> a\<lparr>current_msg_id := m\<rparr>
                     | None \<Rightarrow> a)
           in case map_of d (py ''c'') of
                Some (JArr cs) \<Rightarrow> a1\<lparr>result := choices_loop cs (result a1)\<rparr>
              | _ \<Rightarrow> (case map_of d (py ''v'') of
                         Some (JStr v) \<Rightarrow> a1\<lparr>result := result a1 @ v\<rparr>
                       | _ \<Rightarrow> a1))
      | _ \<Rightarrow> a)"

text \<open>How the \<open>async for\<close> loop is left.\<close>

datatype loop_exit =
    Returned pystr
  | Raised
  | Exhausted agg

text \<open>
  The loop of \<open>_stream_reply\<close>; \<open>loads\<close> is \<open>json.loads\<close>, \<open>None\<close> when it raises.
\<close>

fun stream_loop :: "(pystr \<Rightarrow> json option) \<Rightarrow> stream_item list \<Rightarrow> agg \<Rightarrow> loop_exit" where
  "stream_loop loads [] a = Exhausted a"
| "stream_loop loads (Fault # rest) a = Raised"
| "stream_loop loads (Line line # rest) a =
     (if line = [] then stream_loop loads rest a
      else if \<not> py_startswith line (py ''data: '') then
        (case loads line of
           Some (JObj d) \<Rightarrow>
             if dict_get d (py ''code'') = JStr (py ''chat_choice_shown'')
             then Returned MSG_BRANCH
             else stream_loop loads rest a
         | _ \<Rightarrow> stream_loop loads rest a)
      else
        (let raw = drop 6 line in
         if py_strip raw = [] then stream_loop loads rest a
         else (case loads raw of
                 None \<Rightarrow> stream_loop loads rest a
               | Some j \<Rightarrow> stream_loop loads rest (on_record j a))))"


text \<open>
  \<open>_stream_reply\<close>: the returned string and the requests sent. \<open>_send_choice\<close> swallows
  every exception of its own request, so its response is no input.
\<close>

definition u_stream_reply ::
  "(pystr \<Rightarrow> json option) \<Rightarrow> json \<Rightarrow> pystr \<Rightarrow> stream_item list \<Rightarrow> pystr \<times> request list" where
  "u_stream_reply loads session_uuid text items =
     (case stream_loop loads items \<lparr>result = [], current_msg_id = JStr []\<rparr> of
        Returned msg \<Rightarrow> (msg, [Stream session_uuid text])
      | Raised \<Rightarrow> (MSG_FAIL, [Stream session_uuid text])
      | Exhausted a \<Rightarrow>
          (result a,
           Stream session_uuid text #
             (if truthy (current_msg_id a) then [SelectChoice (current_msg_id a)] else [])))"

section \<open>Session creation and model selection\<close>

text \<open>\<open>_switch_model\<close>: records the model only when the response has status 200.\<close>

definition u_switch_model :: "pystr \<Rightarrow> json \<Rightarrow> pystr \<Rightarrow> http_result \<Rightarrow> state \<Rightarrow> bool \<times> state" where
  "u_switch_model user_id chat_id model_name rsp st =
     (let st1 = st\<lparr>sent := sent st @ [SelectModel chat_id model_name]\<rparr>
      in case rsp of
           NetworkFault \<Rightarrow> (False, st1)
         | Response status body \<Rightarrow>
             if status = 200
             then (True, st1\<lparr>user_models := (user_models st1)(user_id \<mapsto> model_name)\<rparr>)
             else (False, st1))"

text \<open>
  \<open>_create_new_session\<close>: returns the chat id, or the empty string on failure.
  \<open>create_rsp\<close> answers the creation request and \<open>select_rsp\<close> the model selection that
  follows a successful creation.
\<close>

definition u_create_new_session ::
  "(pystr \<Rightarrow> json option) \<Rightarrow> pystr \<Rightarrow> http_result \<Rightarrow> http_result \<Rightarrow> state \<Rightarrow> json \<times> state" where
  "u_create_new_session loads user_id create_rsp select_rsp st =
     (let model = (case user_models st user_id of None \<Rightarrow> py ''Orange Cat'' | Some m \<Rightarrow> m);
          st1 = st\<lparr>sent := sent st @ [CreateSession model]\<rparr>
      in case create_rsp of
           NetworkFault \<Rightarrow> (JStr [], st1)
         | Response status body \<Rightarrow>
             if raise_for_status status then (JStr [], st1)
             else (case loads body of
                     Some (JObj data) \<Rightarrow>
                       (let chat_id = py_or (dict_get data (py ''chat_id'')) (dict_get data (py ''id''))
                        in if truthy chat_id then
                             (let st2 = st1\<lparr>user_sessions := (user_sessions st1)(user_id \<mapsto> chat_id)\<rparr>
                              in (chat_id, snd (u_switch_model user_id chat_id model select_rsp st2)))
                           else (JStr [], st1))
                   | _ \<Rightarrow> (JStr [], st1)))"

section \<open>The operations of the plugin\<close>

text \<open>\<open>str.lower\<close> on ASCII text, for the concrete runs.\<close>

definition ascii_lower :: "pystr \<Rightarrow> pystr" where
  "ascii_lower s = map (\<lambda>c. if 65 \<le> c \<and> c \<le> 90 then c + 32 else c) s"

text \<open>
  \<open>switch_model\<close>; \<open>lower\<close> is \<open>str.lower\<close>. \<open>create_rsp\<close> and \<open>init_select_rsp\<close> answer the
  requests of a session creation, when there is one, and \<open>select_rsp\<close> the selection of
  the target model.
\<close>

definition target_of :: "(pystr \<Rightarrow> pystr) \<Rightarrow> pystr \<Rightarrow> (pystr \<times> pystr) option" where
  "target_of lower target =
     (if py_contains KW_ORANGE target \<or> py_contains (py ''orange'') (lower target)
      then Some (py ''Orange Cat'', KW_ORANGE)
      else if py_contains KW_EXOTIC target \<or> py_contains (py ''exotic'') (lower target)
      then Some (py ''Exotic Shorthair'', KW_EXOTIC)
      else None)"

text \<open>The last two lines of \<open>switch_model\<close>, once \<open>chat_id\<close> is known.\<close>

definition select_target :: "pystr \<Rightarrow> json \<Rightarrow> pystr \<Rightarrow> pystr \<Rightarrow> http_result \<Rightarrow> state \<Rightarrow> pystr \<times> state" where
  "select_target user_id chat_id target_model target_name select_rsp st =
     (let (ok, st1) = u_switch_model user_id chat_id target_model select_rsp st
      in (if ok then MSG_SWITCHED target_name else MSG_SWITCH_FAILED target_name, st1))"

definition switch_model ::
  "(pystr \<Rightarrow> pystr) \<Rightarrow> (pystr \<Rightarrow> json option) \<Rightarrow> pystr \<Rightarrow> pystr \<Rightarrow>
   http_result \<Rightarrow> http_result \<Rightarrow> http_result \<Rightarrow> state \<Rightarrow> pystr \<times> state" where
  "switch_model lower loads user_id target create_rsp init_select_rsp select_rsp st =
     (case target_of lower target of
        None \<Rightarrow> (MSG_SPECIFY, st)
      | Some (target_model, target_name) \<Rightarrow>
          (case user_sessions st user_id of
             None \<Rightarrow>
               (let (chat_id, st1) = u_create_new_session loads user_id create_rsp init_select_rsp st
                in if \<not> truthy chat_id then (MSG_SWITCH_NO_SESSION, st1)
                   else select_target user_id chat_id target_model target_name select_rsp st1)
           | Some chat_id \<Rightarrow>
               select_target user_id chat_id target_model target_name select_rsp st))"

text \<open>\<open>new_session\<close>.\<close>

definition new_session ::
  "(pystr \<Rightarrow> json option) \<Rightarrow> pystr \<Rightarrow> http_result \<Rightarrow> http_result \<Rightarrow> state \<Rightarrow> pystr \<times> state" where
  "new_session loads user_id create_rsp select_rsp st =
     (let (new_id, st1) = u_create_new_session loads user_id create_rsp select_rsp st
      in if truthy new_id
         then (MSG_CREATED (if user_models st1 user_id = Some (py ''Orange Cat'')
                            then KW_ORANGE else KW_EXOTIC), st1)
         else (MSG_CREATE_FAIL, st1))"

text \<open>
  \<open>handle_chat_command\<close>. \<open>user_sessions[user_id]\<close> raises KeyError on a missing key, so
  the result is a sum. \<open>chat_reply\<close> is the last three lines, from
  \<open>session_id = user_sessions[user_id]\<close> on.
\<close>

datatype exn = KeyError

definition chat_reply ::
  "AnunekoConfig \<Rightarrow> (pystr \<Rightarrow> json option) \<Rightarrow> pystr \<Rightarrow> pystr \<Rightarrow> stream_item list \<Rightarrow> state \<Rightarrow>
   (exn + pystr) \<times> state" where
  "chat_reply config loads user_id content items st =
     (case user_sessions st user_id of
        None \<Rightarrow> (Inl KeyError, st)
      | Some session_id \<Rightarrow>
          (let (reply, reqs) = u_stream_reply loads session_id content items
           in (Inr (reply @ WATERMARK config), st\<lparr>sent := sent st @ reqs\<rparr>)))"

definition handle_chat_command ::
  "AnunekoConfig \<Rightarrow> (pystr \<Rightarrow> json option) \<Rightarrow> pystr \<Rightarrow> pystr \<Rightarrow>
   http_result \<Rightarrow> http_result \<Rightarrow> stream_item list \<Rightarrow> state \<Rightarrow> (exn + pystr) \<times> state" where
  "handle_chat_command config loads user_id full_text create_rsp select_rsp items st =
     (if \<not> py_startswith (py_lstrip full_text) (py ''/chat'') then (Inr [], st)
      else
        (let content = py_lstrip (drop 5 (py_lstrip full_text))
         in if content = [] then (Inr MSG_PROMPT, st)
            else if user_sessions st user_id = None then
              (let (chat_id, st1) = u_create_new_session loads user_id create_rsp select_rsp st
               in if \<not> truthy chat_id then (Inr MSG_CREATE_FAIL, st1)
                  else chat_reply config loads user_id content items st1)
            else chat_reply config loads user_id content items st))"

text \<open>\<open>clean_up\<close>.\<close>

definition clean_up :: "state \<Rightarrow> state" where
  "clean_up st = st\<lparr>user_sessions := Map.empty, user_models := Map.empty\<rparr>"

section \<open>Properties of the decoder and aggregator\<close>

text \<open>Unfolding sets for the concrete runs.\<close>

lemmas json_eval = json_loads_def skip_ws_def is_ws_def py_startswith_def py_def
  scan_number_def scan_int_part_def scan_frac_def scan_exp_def scan_sign_def is_digit_def digits_val_def

lemmas frame_eval = py_def py_startswith_def py_strip_def py_isspace_def on_record_def
  choice_step_def dict_get_default_def dict_get_def

text \<open>
  C2. The three lines of the round-trip example decode and aggregate to the text
  \<open>Hello\<close> and the last message id \<open>m1\<close>; the choice with tag 1 adds nothing.
\<close>

theorem decoder_round_trip:
  "stream_loop json_loads
     [Line (py ''data: {\"msg_id\":\"m1\"}''),
      Line (py ''data: {\"c\":[{\"c\":0,\"v\":\"He\"},{\"c\":1,\"v\":\"X\"}]}''),
      Line (py ''data: {\"c\":[{\"c\":0,\"v\":\"llo\"}]}'')]
     \<lparr>result = [], current_msg_id = JStr []\<rparr>
   = Exhausted \<lparr>result = py ''Hello'', current_msg_id = JStr (py ''m1'')\<rparr>"
  by (simp add: json_eval frame_eval)


lemma on_record_not_dict: "\<forall>d. j \<noteq> JObj d \<Longrightarrow> on_record j a = a"
  by (cases j) (simp_all add: on_record_def)

lemma stream_loop_reaches_sentinel:
  assumes "line \<noteq> []" and "\<not> py_startswith line (py ''data: '')"
    and "loads line = Some (JObj d)"
    and "dict_get d (py ''code'') = JStr (py ''chat_choice_shown'')"
  shows "stream_loop loads (map Line pre @ Line line # rest) a = Returned MSG_BRANCH"
  using assms
proof (induction pre arbitrary: a)
  case Nil
  then show ?case by simp
next
  case (Cons l pre)
  then show ?case
    by (simp add: Let_def split: option.split json.split)
qed

text \<open>
  C3. A line that is no data frame and decodes to a record whose \<open>code\<close> is
  \<open>chat_choice_shown\<close> ends the decoding there: whatever lines came before it, whatever
  was accumulated and whatever follows, the stream call returns the retry message, and
  no branch selection is sent.
\<close>

theorem unresolved_branch_overrides:
  assumes "line \<noteq> []" and "\<not> py_startswith line (py ''data: '')"
    and "loads line = Some (JObj d)"
    and "dict_get d (py ''code'') = JStr (py ''chat_choice_shown'')"
  shows "stream_loop loads (map Line pre @ Line line # rest) a = Returned MSG_BRANCH
       \<and> u_stream_reply loads session_uuid content (map Line pre @ Line line # rest)
           = (MSG_BRANCH, [Stream session_uuid content])"
  using assms by (simp add: stream_loop_reaches_sentinel u_stream_reply_def)

theorem unresolved_branch_overrides_witness:
  "py ''{\"code\":\"chat_choice_shown\"}'' \<noteq> []
   \<and> \<not> py_startswith (py ''{\"code\":\"chat_choice_shown\"}'') (py ''data: '')
   \<and> json_loads (py ''{\"code\":\"chat_choice_shown\"}'')
       = Some (JObj [(py ''code'', JStr (py ''chat_choice_shown''))])
   \<and> u_stream_reply json_loads (JStr (py ''s1'')) (py ''hi'')
         [Line (py ''data: {\"v\":\"partial\"}''),
          Line (py ''{\"code\":\"chat_choice_shown\"}''),
          Line (py ''data: {\"v\":\"late\"}'')]
       = (MSG_BRANCH, [Stream (JStr (py ''s1'')) (py ''hi'')])"
proof -
  have h1: "py ''{\"code\":\"chat_choice_shown\"}'' \<noteq> []"
    by (simp add: py_def)
  have h2: "\<not> py_startswith (py ''{\"code\":\"chat_choice_shown\"}'') (py ''data: '')"
    by (simp add: py_def py_startswith_def)
  have h3: "json_loads (py ''{\"code\":\"chat_choice_shown\"}'')
              = Some (JObj [(py ''code'', JStr (py ''chat_choice_shown''))])"
    by (simp add: json_eval)
  have h4: "dict_get [(py ''code'', JStr (py ''chat_choice_shown''))] (py ''code'')
              = JStr (py ''chat_choice_shown'')"
    by (simp add: dict_get_def)
  from unresolved_branch_overrides [where loads = json_loads, OF h1 h2 h3 h4,
      where pre = "[py ''data: {\"v\":\"partial\"}'']"
        , where rest = "[Line (py ''data: {\"v\":\"late\"}'')]"
        , where session_uuid = "JStr (py ''s1'')", where content = "py ''hi''"]
  have "u_stream_reply json_loads (JStr (py ''s1'')) (py ''hi'')
         [Line (py ''data: {\"v\":\"partial\"}''),
          Line (py ''{\"code\":\"chat_choice_shown\"}''),
          Line (py ''data: {\"v\":\"late\"}'')]
       = (MSG_BRANCH, [Stream (JStr (py ''s1'')) (py ''hi'')])"
    by simp
  with h1 h2 h3 show ?thesis by blast
qed

lemma stream_loop_garbage:
  assumes "\<forall>l\<in>set lines. l = [] \<or>
             (\<forall>d. loads (if py_startswith l (py ''data: '') then drop 6 l else l) \<noteq> Some (JObj d))"
  shows "stream_loop loads (map Line lines) a = Exhausted a"
  using assms
proof (induction lines arbitrary: a)
  case Nil
  then show ?case by simp
next
  case (Cons l lines)
  then have rest: "stream_loop loads (map Line lines) a = Exhausted a"
    by simp
  show ?case
  proof (cases "l = []")
    case True
    then show ?thesis using rest by simp
  next
    case False
    with Cons.prems have nd:
      "\<forall>d. loads (if py_startswith l (py ''data: '') then drop 6 l else l) \<noteq> Some (JObj d)"
      by simp
    show ?thesis
    proof (cases "py_startswith l (py ''data: '')")
      case True
      with nd have "\<forall>d. loads (drop 6 l) \<noteq> Some (JObj d)" by simp
      then have "\<And>j. loads (drop 6 l) = Some j \<Longrightarrow> on_record j a = a"
        by (auto intro: on_record_not_dict)
      with True False rest show ?thesis
        by (simp add: Let_def split: option.split)
    next
      case nf: False
      with nd have "\<forall>d. loads l \<noteq> Some (JObj d)" by simp
      with nf False rest show ?thesis
        by (simp split: option.split json.split)
    qed
  qed
qed

text \<open>
  C5. A stream made only of empty lines and of lines whose payload does not decode to a
  record (it fails to decode, or decodes to something that is no object) raises nothing:
  the stream call returns the empty text, records no message id and sends no branch
  selection.
\<close>

theorem garbage_stream_is_empty_success:
  assumes "\<forall>l\<in>set lines. l = [] \<or>
             (\<forall>d. loads (if py_startswith l (py ''data: '') then drop 6 l else l) \<noteq> Some (JObj d))"
  shows "stream_loop loads (map Line lines) \<lparr>result = [], current_msg_id = JStr []\<rparr>
           = Exhausted \<lparr>result = [], current_msg_id = JStr []\<rparr>
       \<and> u_stream_reply loads session_uuid content (map Line lines) = ([], [Stream session_uuid content])"
  using assms by (simp add: stream_loop_garbage u_stream_reply_def)

theorem garbage_stream_is_empty_success_witness:
  "json_loads (py ''ping'') = None
   \<and> json_loads (drop 6 (py ''data: <html>'')) = None
   \<and> json_loads (drop 6 (py ''data: [1, 2]'')) = Some (JArr [JInt 1, JInt 2])
   \<and> u_stream_reply json_loads (JStr (py ''s1'')) (py ''hi'')
         [Line [], Line (py ''ping''), Line (py ''data: <html>''), Line (py ''data: [1, 2]'')]
       = ([], [Stream (JStr (py ''s1'')) (py ''hi'')])"
proof -
  have g1: "json_loads (py ''ping'') = None"
    by (simp add: json_eval)
  have g2: "json_loads (drop 6 (py ''data: <html>'')) = None"
    by (simp add: json_eval)
  have g3: "json_loads (drop 6 (py ''data: [1, 2]'')) = Some (JArr [JInt 1, JInt 2])"
    by (simp add: json_eval)
  have s1: "\<not> py_startswith (py ''ping'') (py ''data: '')"
    by (simp add: py_def py_startswith_def)
  have s2: "py_startswith (py ''data: <html>'') (py ''data: '')"
    by (simp add: py_def py_startswith_def)
  have s3: "py_startswith (py ''data: [1, 2]'') (py ''data: '')"
    by (simp add: py_def py_startswith_def)
  have h: "\<forall>l\<in>set [[], py ''ping'', py ''data: <html>'', py ''data: [1, 2]'']. l = [] \<or>
      (\<forall>d. json_loads (if py_startswith l (py ''data: '') then drop 6 l else l) \<noteq> Some (JObj d))"
    using g1 g2 g3 s1 s2 s3 by simp
  from garbage_stream_is_empty_success [where loads = json_loads, OF h, where session_uuid = "JStr (py ''s1'')", where content = "py ''hi''"]
  have "u_stream_reply json_loads (JStr (py ''s1'')) (py ''hi'')
         [Line [], Line (py ''ping''), Line (py ''data: <html>''), Line (py ''data: [1, 2]'')]
       = ([], [Stream (JStr (py ''s1'')) (py ''hi'')])"
    by simp
  with g1 g2 g3 show ?thesis by blast
qed

lemma choices_loop_append:
  "\<forall>c\<in>set pre. \<forall>r. choice_step c r \<noteq> None \<Longrightarrow>
     choices_loop (pre @ cs) res = choices_loop cs (choices_loop pre res)"
proof (induction pre arbitrary: res)
  case Nil
  then show ?case by simp
next
  case (Cons c pre)
  then obtain r' where "choice_step c res = Some r'"
    by fastforce
  with Cons show ?case by simp
qed

lemma choice_step_extends: "choice_step c res = Some r' \<Longrightarrow> \<exists>s. r' = res @ s"
  by (auto simp: choice_step_def split: json.splits if_splits option.splits)

lemma choices_loop_extends: "\<exists>s. choices_loop cs res = res @ s"
proof (induction cs arbitrary: res)
  case Nil
  then show ?case by simp
next
  case (Cons c cs)
  show ?case
  proof (cases "choice_step c res")
    case None
    then show ?thesis by simp
  next
    case (Some r')
    then obtain s where s: "r' = res @ s"
      using choice_step_extends by blast
    from Cons obtain t where "choices_loop cs r' = r' @ t" by blast
    with Some s show ?thesis by simp
  qed
qed

lemma py_c_neq_v: "py ''c'' \<noteq> py ''v''" "py ''v'' \<noteq> py ''c''"
  by (simp_all add: py_def)

text \<open>
  C9, as stated, fails: a choice without the key \<open>c\<close> whose \<open>v\<close> is the number 5 adds
  nothing to the text, and a choice without the key \<open>c\<close> whose \<open>v\<close> is the string \<open>B\<close>
  adds nothing when an earlier element of the list made the loop raise (an element that
  is no record, or an accepted choice whose \<open>v\<close> is \<open>null\<close>).
\<close>

theorem untagged_choice_counterexample:
  "fst (u_stream_reply json_loads (JStr (py ''s1'')) (py ''hi'')
          [Line (py ''data: {\"c\":[{\"v\":5}]}'')]) = []
   \<and> fst (u_stream_reply json_loads (JStr (py ''s1'')) (py ''hi'')
          [Line (py ''data: {\"c\":[7,{\"v\":\"B\"}]}'')]) = []
   \<and> fst (u_stream_reply json_loads (JStr (py ''s1'')) (py ''hi'')
          [Line (py ''data: {\"c\":[{\"c\":0,\"v\":null},{\"v\":\"B\"}]}'')]) = []
   \<and> py ''B'' \<noteq> []"
  by (simp add: u_stream_reply_def json_eval frame_eval)

text \<open>
  C9, as amended. In a data frame whose \<open>c\<close> field is a list, a choice without the key
  \<open>c\<close> is handled as the same choice with \<open>c = 0\<close>; when its \<open>v\<close> is a string and no
  earlier element of the list made the loop raise, that string is appended to the
  accumulated text.
\<close>

theorem untagged_choice_is_accepted:
  assumes "map_of j (py ''c'') = Some (JArr (pre @ JObj d # post))"
    and "\<forall>c\<in>set pre. \<forall>r. choice_step c r \<noteq> None"
    and "map_of d (py ''c'') = None"
    and "map_of d (py ''v'') = Some (JStr v)"
  shows "choice_step (JObj d) res = choice_step (JObj ((py ''c'', JInt 0) # d)) res
       \<and> choice_step (JObj d) res = Some (res @ v)
       \<and> result (on_record (JObj j) a) = choices_loop post (choices_loop pre (result a) @ v)
       \<and> (\<exists>s1 s2. result (on_record (JObj j) a) = result a @ s1 @ v @ s2)"
proof -
  have tag0: "choice_step (JObj d) res = choice_step (JObj ((py ''c'', JInt 0) # d)) res"
    using assms(3) by (simp add: choice_step_def dict_get_default_def py_c_neq_v)
  have step: "choice_step (JObj d) r = Some (r @ v)" for r
    using assms(3,4) by (simp add: choice_step_def dict_get_default_def)
  have "choices_loop (pre @ JObj d # post) r = choices_loop post (choices_loop pre r @ v)" for r
    using assms(2) by (simp add: choices_loop_append step)
  then have res: "result (on_record (JObj j) a) = choices_loop post (choices_loop pre (result a) @ v)"
    using assms(1) by (simp add: on_record_def Let_def split: option.split)
  obtain s1 where s1: "choices_loop pre (result a) = result a @ s1"
    using choices_loop_extends by blast
  obtain s2 where "choices_loop post (choices_loop pre (result a) @ v)
                     = (choices_loop pre (result a) @ v) @ s2"
    using choices_loop_extends by blast
  with res s1 have "result (on_record (JObj j) a) = result a @ s1 @ v @ s2"
    by simp
  with tag0 step res show ?thesis by blast
qed

theorem untagged_choice_is_accepted_witness:
  "map_of [(py ''c'', JArr ([JObj [(py ''c'', JInt 0), (py ''v'', JStr (py ''He''))],
                              JObj [(py ''c'', JInt 1), (py ''v'', JStr (py ''X''))]]
                             @ JObj [(py ''v'', JStr (py ''llo''))] # []))] (py ''c'')
     = Some (JArr ([JObj [(py ''c'', JInt 0), (py ''v'', JStr (py ''He''))],
                    JObj [(py ''c'', JInt 1), (py ''v'', JStr (py ''X''))]]
                   @ JObj [(py ''v'', JStr (py ''llo''))] # []))
   \<and> map_of [(py ''v'', JStr (py ''llo''))] (py ''c'') = None
   \<and> map_of [(py ''v'', JStr (py ''llo''))] (py ''v'') = Some (JStr (py ''llo''))
   \<and> result (on_record
         (JObj [(py ''c'', JArr [JObj [(py ''c'', JInt 0), (py ''v'', JStr (py ''He''))],
                                 JObj [(py ''c'', JInt 1), (py ''v'', JStr (py ''X''))],
                                 JObj [(py ''v'', JStr (py ''llo''))]])])
         \<lparr>result = [], current_msg_id = JStr []\<rparr>) = py ''Hello''"
proof -
  let ?pre = "[JObj [(py ''c'', JInt 0), (py ''v'', JStr (py ''He''))],
               JObj [(py ''c'', JInt 1), (py ''v'', JStr (py ''X''))]]"
  let ?d = "[(py ''v'', JStr (py ''llo''))]"
  have h1: "map_of [(py ''c'', JArr (?pre @ JObj ?d # []))] (py ''c'') = Some (JArr (?pre @ JObj ?d # []))"
    by simp
  have h2: "\<forall>c\<in>set ?pre. \<forall>r. choice_step c r \<noteq> None"
    by (simp add: choice_step_def dict_get_default_def py_def)
  have h3: "map_of ?d (py ''c'') = None"
    by (simp add: py_def)
  have h4: "map_of ?d (py ''v'') = Some (JStr (py ''llo''))"
    by simp
  from untagged_choice_is_accepted [OF h1 h2 h3 h4, where a = "\<lparr>result = [], current_msg_id = JStr []\<rparr>"]
  have "result (on_record (JObj [(py ''c'', JArr (?pre @ JObj ?d # []))])
          \<lparr>result = [], current_msg_id = JStr []\<rparr>)
        = choices_loop [] (choices_loop ?pre [] @ py ''llo'')"
    by simp
  also have "\<dots> = py ''Hello''"
    by (simp add: choice_step_def dict_get_default_def py_def)
  finally have "result (on_record (JObj [(py ''c'', JArr (?pre @ JObj ?d # []))])
          \<lparr>result = [], current_msg_id = JStr []\<rparr>) = py ''Hello''" .
  with h1 h3 h4 show ?thesis by simp
qed

lemma map_of_filter_other:
  "k' \<noteq> k \<Longrightarrow> map_of (filter (\<lambda>kv. fst kv \<noteq> k) d) k' = map_of d k'"
  by (induction d) auto

lemma py_msg_id_neq: "py ''c'' \<noteq> py ''msg_id''" "py ''v'' \<noteq> py ''msg_id''"
  by (simp_all add: py_def)

text \<open>
  C4, as stated, fails: two data frames that carry a \<open>msg_id\<close> field, one with a choice
  list and one with a string \<open>v\<close>, still give the text \<open>Hello\<close>.
\<close>

theorem msg_id_record_counterexample:
  "fst (u_stream_reply json_loads (JStr (py ''s1'')) (py ''hi'')
          [Line (py ''data: {\"msg_id\":\"m1\",\"c\":[{\"c\":0,\"v\":\"He\"}]}''),
           Line (py ''data: {\"msg_id\":\"m2\",\"v\":\"llo\"}'')]) = py ''Hello''
   \<and> py ''Hello'' \<noteq> []"
  by (simp add: u_stream_reply_def json_eval frame_eval)

text \<open>
  C4, as amended. A data frame with a \<open>msg_id\<close> field sets the current message id, and
  its \<open>c\<close> list or \<open>v\<close> string adds to the text exactly as it does in the same record
  without the \<open>msg_id\<close> field: the shapes are not exclusive.
\<close>

theorem msg_id_record_keeps_its_text:
  assumes "map_of d (py ''msg_id'') = Some m"
  shows "current_msg_id (on_record (JObj d) a) = m
       \<and> result (on_record (JObj d) a)
           = result (on_record (JObj (filter (\<lambda>kv. fst kv \<noteq> py ''msg_id'') d)) a)"
  using assms
  by (simp add: on_record_def Let_def map_of_filter_other py_msg_id_neq
      split: option.split json.split)

theorem msg_id_record_keeps_its_text_witness:
  "map_of [(py ''msg_id'', JStr (py ''m1'')), (py ''v'', JStr (py ''Hi''))] (py ''msg_id'')
     = Some (JStr (py ''m1''))
   \<and> on_record (JObj [(py ''msg_id'', JStr (py ''m1'')), (py ''v'', JStr (py ''Hi''))])
         \<lparr>result = [], current_msg_id = JStr []\<rparr>
       = \<lparr>result = py ''Hi'', current_msg_id = JStr (py ''m1'')\<rparr>"
proof -
  have h: "map_of [(py ''msg_id'', JStr (py ''m1'')), (py ''v'', JStr (py ''Hi''))] (py ''msg_id'')
             = Some (JStr (py ''m1''))"
    by simp
  have r: "result (on_record (JObj (filter (\<lambda>kv. fst kv \<noteq> py ''msg_id'')
              [(py ''msg_id'', JStr (py ''m1'')), (py ''v'', JStr (py ''Hi''))]))
              \<lparr>result = [], current_msg_id = JStr []\<rparr>) = py ''Hi''"
    by (simp add: on_record_def py_def)
  from msg_id_record_keeps_its_text [OF h, where a = "\<lparr>result = [], current_msg_id = JStr []\<rparr>"] r
  have "current_msg_id (on_record (JObj [(py ''msg_id'', JStr (py ''m1'')), (py ''v'', JStr (py ''Hi''))])
           \<lparr>result = [], current_msg_id = JStr []\<rparr>) = JStr (py ''m1'')
      \<and> result (on_record (JObj [(py ''msg_id'', JStr (py ''m1'')), (py ''v'', JStr (py ''Hi''))])
           \<lparr>result = [], current_msg_id = JStr []\<rparr>) = py ''Hi''"
    by simp
  with h show ?thesis by simp
qed

section \<open>Properties of session creation and of the operations\<close>

lemma u_switch_model_sessions [simp]:
  "user_sessions (snd (u_switch_model user_id chat_id model_name rsp st)) = user_sessions st"
  by (simp add: u_switch_model_def Let_def split: http_result.split)

lemma u_switch_model_failed:
  "\<forall>body. rsp \<noteq> Response 200 body \<Longrightarrow>
     u_switch_model user_id chat_id model_name rsp st
       = (False, st\<lparr>sent := sent st @ [SelectModel chat_id model_name]\<rparr>)"
  by (cases rsp) (auto simp: u_switch_model_def Let_def)

lemma u_switch_model_models:
  "user_models (snd (u_switch_model user_id chat_id model_name rsp st))
     = (if \<exists>body. rsp = Response 200 body then (user_models st)(user_id \<mapsto> model_name)
        else user_models st)"
  by (cases rsp) (auto simp: u_switch_model_def Let_def)

text \<open>What a call of \<open>_create_new_session\<close> does to the store, by its returned value.\<close>

lemma create_falsy:
  "\<not> truthy (fst (u_create_new_session loads user_id create_rsp select_rsp st)) \<Longrightarrow>
     fst (u_create_new_session loads user_id create_rsp select_rsp st) = JStr []
     \<and> user_sessions (snd (u_create_new_session loads user_id create_rsp select_rsp st)) = user_sessions st
     \<and> user_models (snd (u_create_new_session loads user_id create_rsp select_rsp st)) = user_models st"
  by (auto simp: u_create_new_session_def Let_def
      split: http_result.splits option.splits json.splits if_splits)

lemma create_truthy:
  "truthy (fst (u_create_new_session loads user_id create_rsp select_rsp st)) \<Longrightarrow>
     user_sessions (snd (u_create_new_session loads user_id create_rsp select_rsp st))
       = (user_sessions st)(user_id \<mapsto> fst (u_create_new_session loads user_id create_rsp select_rsp st))
     \<and> user_models (snd (u_create_new_session loads user_id create_rsp select_rsp st))
       = (if \<exists>body. select_rsp = Response 200 body
          then (user_models st)(user_id \<mapsto>
                 (case user_models st user_id of None \<Rightarrow> py ''Orange Cat'' | Some m \<Rightarrow> m))
          else user_models st)"
  by (auto simp: u_create_new_session_def Let_def u_switch_model_models
      split: http_result.splits option.splits json.splits if_splits)

text \<open>
  C10. When the creation request meets a network fault, a status outside 2xx, a body
  that does not decode, or a record with neither \<open>chat_id\<close> nor \<open>id\<close>,
  \<open>_create_new_session\<close> returns the empty string and leaves both dictionaries as they
  were: a session id stored before is kept.
\<close>

theorem failed_creation_changes_nothing:
  assumes "create_rsp = NetworkFault
         \<or> (\<exists>status body. create_rsp = Response status body
              \<and> (raise_for_status status
                   \<or> loads body = None
                   \<or> (\<exists>data. loads body = Some (JObj data)
                         \<and> map_of data (py ''chat_id'') = None \<and> map_of data (py ''id'') = None)))"
  shows "fst (u_create_new_session loads user_id create_rsp select_rsp st) = JStr []
       \<and> user_sessions (snd (u_create_new_session loads user_id create_rsp select_rsp st)) = user_sessions st
       \<and> user_models (snd (u_create_new_session loads user_id create_rsp select_rsp st)) = user_models st"
proof -
  have "\<not> truthy (fst (u_create_new_session loads user_id create_rsp select_rsp st))"
    using assms
  proof (elim disjE exE conjE)
    assume "create_rsp = NetworkFault"
    then show ?thesis by (simp add: u_create_new_session_def Let_def)
  next
    fix status body
    assume "create_rsp = Response status body" and "raise_for_status status"
    then show ?thesis by (simp add: u_create_new_session_def Let_def)
  next
    fix status body
    assume "create_rsp = Response status body" and "loads body = None"
    then show ?thesis by (simp add: u_create_new_session_def Let_def)
  next
    fix status body data
    assume "create_rsp = Response status body" and "loads body = Some (JObj data)"
      and "map_of data (py ''chat_id'') = None" and "map_of data (py ''id'') = None"
    then show ?thesis
      by (simp add: u_create_new_session_def Let_def dict_get_def py_or_def)
  qed
  then show ?thesis by (rule create_falsy)
qed

theorem failed_creation_changes_nothing_witness:
  "json_loads (py ''{\"ok\":true}'') = Some (JObj [(py ''ok'', JBool True)])
   \<and> map_of [(py ''ok'', JBool True)] (py ''chat_id'') = None
   \<and> map_of [(py ''ok'', JBool True)] (py ''id'') = None
   \<and> fst (u_create_new_session json_loads (py ''u1'') (Response 200 (py ''{\"ok\":true}'')) NetworkFault
          \<lparr>user_sessions = [py ''u1'' \<mapsto> JStr (py ''old'')], user_models = Map.empty, sent = []\<rparr>)
       = JStr []
   \<and> user_sessions (snd (u_create_new_session json_loads (py ''u1'')
          (Response 200 (py ''{\"ok\":true}'')) NetworkFault
          \<lparr>user_sessions = [py ''u1'' \<mapsto> JStr (py ''old'')], user_models = Map.empty, sent = []\<rparr>))
       = [py ''u1'' \<mapsto> JStr (py ''old'')]"
proof -
  have g: "json_loads (py ''{\"ok\":true}'') = Some (JObj [(py ''ok'', JBool True)])"
    by (simp add: json_eval)
  have m1: "map_of [(py ''ok'', JBool True)] (py ''chat_id'') = None"
    by (simp add: py_def)
  have m2: "map_of [(py ''ok'', JBool True)] (py ''id'') = None"
    by (simp add: py_def)
  have h: "Response 200 (py ''{\"ok\":true}'') = NetworkFault
         \<or> (\<exists>status body. Response 200 (py ''{\"ok\":true}'') = Response status body
              \<and> (raise_for_status status
                   \<or> json_loads body = None
                   \<or> (\<exists>data. json_loads body = Some (JObj data)
                         \<and> map_of data (py ''chat_id'') = None \<and> map_of data (py ''id'') = None)))"
    using g m1 m2 by simp
  from failed_creation_changes_nothing [where loads = json_loads, OF h,
      where user_id = "py ''u1''", where select_rsp = NetworkFault,
      where st = "\<lparr>user_sessions = [py ''u1'' \<mapsto> JStr (py ''old'')], user_models = Map.empty, sent = []\<rparr>"]
    g m1 m2
  show ?thesis by simp
qed

text \<open>
  C7, as stated, fails: the response holds the field \<open>chat_id\<close>, with the empty string,
  and the field \<open>id\<close>; the field that is present first does not win, the session id
  returned and stored is the value of \<open>id\<close>.
\<close>

theorem session_id_counterexample:
  "json_loads (py ''{\"chat_id\":\"\",\"id\":\"abc\"}'')
     = Some (JObj [(py ''chat_id'', JStr []), (py ''id'', JStr (py ''abc''))])
   \<and> fst (u_create_new_session json_loads (py ''u1'')
          (Response 200 (py ''{\"chat_id\":\"\",\"id\":\"abc\"}'')) (Response 200 [])
          \<lparr>user_sessions = Map.empty, user_models = Map.empty, sent = []\<rparr>) = JStr (py ''abc'')
   \<and> user_sessions (snd (u_create_new_session json_loads (py ''u1'')
          (Response 200 (py ''{\"chat_id\":\"\",\"id\":\"abc\"}'')) (Response 200 [])
          \<lparr>user_sessions = Map.empty, user_models = Map.empty, sent = []\<rparr>)) (py ''u1'')
       = Some (JStr (py ''abc''))"
  by (simp add: u_create_new_session_def u_switch_model_def raise_for_status_def
      dict_get_def py_or_def json_eval Let_def)

text \<open>
  C7, as amended. On a 2xx response whose body is a record, the session id is the value of
  \<open>chat_id\<close> when that value is truthy, otherwise the value of \<open>id\<close> when that one is
  truthy (the first truthy value wins, not the first present field); it is returned and
  stored. When neither holds a truthy value the call returns the empty string and stores
  nothing.
\<close>

theorem session_id_first_truthy_wins:
  assumes "create_rsp = Response status body" and "\<not> raise_for_status status"
    and "loads body = Some (JObj data)"
  shows "(truthy (dict_get data (py ''chat_id'')) \<longrightarrow>
            fst (u_create_new_session loads user_id create_rsp select_rsp st) = dict_get data (py ''chat_id'')
          \<and> user_sessions (snd (u_create_new_session loads user_id create_rsp select_rsp st)) user_id
              = Some (dict_get data (py ''chat_id'')))
       \<and> (\<not> truthy (dict_get data (py ''chat_id'')) \<and> truthy (dict_get data (py ''id'')) \<longrightarrow>
            fst (u_create_new_session loads user_id create_rsp select_rsp st) = dict_get data (py ''id'')
          \<and> user_sessions (snd (u_create_new_session loads user_id create_rsp select_rsp st)) user_id
              = Some (dict_get data (py ''id'')))
       \<and> (\<not> truthy (dict_get data (py ''chat_id'')) \<and> \<not> truthy (dict_get data (py ''id'')) \<longrightarrow>
            fst (u_create_new_session loads user_id create_rsp select_rsp st) = JStr []
          \<and> user_sessions (snd (u_create_new_session loads user_id create_rsp select_rsp st))
              = user_sessions st)"
  using assms by (simp add: u_create_new_session_def Let_def py_or_def)


theorem session_id_first_truthy_wins_witness:
  "\<not> raise_for_status 201
   \<and> json_loads (py ''{\"chat_id\":null,\"id\":\"abc\"}'')
       = Some (JObj [(py ''chat_id'', JNull), (py ''id'', JStr (py ''abc''))])
   \<and> fst (u_create_new_session json_loads (py ''u1'')
          (Response 201 (py ''{\"chat_id\":null,\"id\":\"abc\"}'')) NetworkFault
          \<lparr>user_sessions = Map.empty, user_models = Map.empty, sent = []\<rparr>) = JStr (py ''abc'')
   \<and> user_sessions (snd (u_create_new_session json_loads (py ''u1'')
          (Response 201 (py ''{\"chat_id\":null,\"id\":\"abc\"}'')) NetworkFault
          \<lparr>user_sessions = Map.empty, user_models = Map.empty, sent = []\<rparr>)) (py ''u1'')
       = Some (JStr (py ''abc''))"
proof -
  have h2: "\<not> raise_for_status 201"
    by (simp add: raise_for_status_def)
  have h3: "json_loads (py ''{\"chat_id\":null,\"id\":\"abc\"}'')
       = Some (JObj [(py ''chat_id'', JNull), (py ''id'', JStr (py ''abc''))])"
    by (simp add: json_eval)
  have d1: "dict_get [(py ''chat_id'', JNull), (py ''id'', JStr (py ''abc''))] (py ''chat_id'') = JNull"
    by (simp add: dict_get_def)
  have d2: "dict_get [(py ''chat_id'', JNull), (py ''id'', JStr (py ''abc''))] (py ''id'') = JStr (py ''abc'')"
    by (simp add: dict_get_def py_def)
  have ne: "py ''abc'' \<noteq> []"
    by (simp add: py_def)
  from session_id_first_truthy_wins [where loads = json_loads, OF refl h2 h3,
      where user_id = "py ''u1''", where select_rsp = NetworkFault,
      where st = "\<lparr>user_sessions = Map.empty, user_models = Map.empty, sent = []\<rparr>"]
    h2 h3 ne
  show ?thesis by (simp add: d1 d2)
qed

lemma select_target_failed:
  "\<forall>body. select_rsp \<noteq> Response 200 body \<Longrightarrow>
     select_target user_id chat_id target_model target_name select_rsp st
       = (MSG_SWITCH_FAILED target_name,
          st\<lparr>sent := sent st @ [SelectModel chat_id target_model]\<rparr>)"
  by (simp add: select_target_def u_switch_model_failed)

text \<open>
  C8. \<open>switch_model\<close> with a recognised target whose model selection fails (network
  fault or a status other than 200) returns a failure message and reverts nothing: a
  session id stored before stays, one created during the call stays, and the recorded
  model changes only where a model selection was answered with 200, which here can only
  be the selection that follows the creation, with the model the session was created
  with.
\<close>

theorem failed_select_keeps_session_state:
  assumes "target_of lower target = Some (target_model, target_name)"
    and "\<forall>body. select_rsp \<noteq> Response 200 body"
  shows "(fst (switch_model lower loads user_id target create_rsp init_select_rsp select_rsp st)
            = MSG_SWITCH_FAILED target_name
          \<or> fst (switch_model lower loads user_id target create_rsp init_select_rsp select_rsp st)
            = MSG_SWITCH_NO_SESSION)
       \<and> (\<forall>cid. user_sessions st user_id = Some cid \<longrightarrow>
             fst (switch_model lower loads user_id target create_rsp init_select_rsp select_rsp st)
               = MSG_SWITCH_FAILED target_name
           \<and> user_sessions (snd (switch_model lower loads user_id target create_rsp init_select_rsp select_rsp st))
               = user_sessions st
           \<and> user_models (snd (switch_model lower loads user_id target create_rsp init_select_rsp select_rsp st))
               = user_models st)
       \<and> (user_sessions st user_id = None
            \<and> truthy (fst (u_create_new_session loads user_id create_rsp init_select_rsp st)) \<longrightarrow>
             fst (switch_model lower loads user_id target create_rsp init_select_rsp select_rsp st)
               = MSG_SWITCH_FAILED target_name
           \<and> user_sessions (snd (switch_model lower loads user_id target create_rsp init_select_rsp select_rsp st))
               = (user_sessions st)(user_id \<mapsto>
                    fst (u_create_new_session loads user_id create_rsp init_select_rsp st)))
       \<and> (user_sessions st user_id = None
            \<and> \<not> truthy (fst (u_create_new_session loads user_id create_rsp init_select_rsp st)) \<longrightarrow>
             user_sessions (snd (switch_model lower loads user_id target create_rsp init_select_rsp select_rsp st))
               = user_sessions st)
       \<and> (user_models (snd (switch_model lower loads user_id target create_rsp init_select_rsp select_rsp st))
             = user_models st
           \<or> (\<exists>body. init_select_rsp = Response 200 body)
             \<and> user_sessions st user_id = None
             \<and> user_models (snd (switch_model lower loads user_id target create_rsp init_select_rsp select_rsp st))
                 = (user_models st)(user_id \<mapsto>
                     (case user_models st user_id of None \<Rightarrow> py ''Orange Cat'' | Some m \<Rightarrow> m)))"
proof (cases "user_sessions st user_id")
  case (Some cid)
  with assms show ?thesis
    by (simp add: switch_model_def select_target_failed)
next
  case None
  let ?c = "u_create_new_session loads user_id create_rsp init_select_rsp st"
  show ?thesis
  proof (cases "truthy (fst ?c)")
    case True
    from None True assms
    have sw: "switch_model lower loads user_id target create_rsp init_select_rsp select_rsp st
                = (MSG_SWITCH_FAILED target_name,
                   (snd ?c)\<lparr>sent := sent (snd ?c) @ [SelectModel (fst ?c) target_model]\<rparr>)"
      by (simp add: switch_model_def select_target_failed split_beta)
    from create_truthy [OF True] None True show ?thesis
      unfolding sw by (auto split: if_splits)
  next
    case False
    from None False assms
    have sw: "switch_model lower loads user_id target create_rsp init_select_rsp select_rsp st
                = (MSG_SWITCH_NO_SESSION, snd ?c)"
      by (simp add: switch_model_def split_beta)
    from create_falsy [OF False] None False show ?thesis
      unfolding sw by simp
  qed
qed

theorem failed_select_keeps_session_state_witness:
  "target_of ascii_lower (py ''Exotic'') = Some (py ''Exotic Shorthair'', KW_EXOTIC)
   \<and> (\<forall>body. Response 500 [] \<noteq> Response 200 body)
   \<and> fst (switch_model ascii_lower json_loads (py ''u1'') (py ''Exotic'')
          (Response 200 (py ''{\"chat_id\":\"abc\"}'')) (Response 200 []) (Response 500 [])
          \<lparr>user_sessions = Map.empty, user_models = Map.empty, sent = []\<rparr>)
       = MSG_SWITCH_FAILED KW_EXOTIC
   \<and> user_sessions (snd (switch_model ascii_lower json_loads (py ''u1'') (py ''Exotic'')
          (Response 200 (py ''{\"chat_id\":\"abc\"}'')) (Response 200 []) (Response 500 [])
          \<lparr>user_sessions = Map.empty, user_models = Map.empty, sent = []\<rparr>))
       = [py ''u1'' \<mapsto> JStr (py ''abc'')]"
proof -
  have h1: "target_of ascii_lower (py ''Exotic'') = Some (py ''Exotic Shorthair'', KW_EXOTIC)"
    by (simp add: target_of_def ascii_lower_def py_def py_startswith_def KW_ORANGE_def KW_EXOTIC_def)
  have h2: "\<forall>body. Response 500 [] \<noteq> Response 200 body"
    by simp
  have c: "fst (u_create_new_session json_loads (py ''u1'')
             (Response 200 (py ''{\"chat_id\":\"abc\"}'')) (Response 200 [])
             \<lparr>user_sessions = Map.empty, user_models = Map.empty, sent = []\<rparr>) = JStr (py ''abc'')"
    by (simp add: u_create_new_session_def raise_for_status_def dict_get_def py_or_def json_eval Let_def)
  have ne: "py ''abc'' \<noteq> []"
    by (simp add: py_def)
  from failed_select_keeps_session_state [where loads = json_loads, OF h1 h2,
      where user_id = "py ''u1''", where create_rsp = "Response 200 (py ''{\"chat_id\":\"abc\"}'')",
      where init_select_rsp = "Response 200 []",
      where st = "\<lparr>user_sessions = Map.empty, user_models = Map.empty, sent = []\<rparr>"]
    h1 h2 ne
  show ?thesis by (simp add: c)
qed

text \<open>
  The label \<open>new_session\<close> reports for a user without a recorded model: it depends on
  the answer to the model selection that follows the creation.
\<close>

lemma new_session_label:
  assumes "user_models st user_id = None"
    and "truthy (fst (u_create_new_session loads user_id create_rsp select_rsp st))"
  shows "fst (new_session loads user_id create_rsp select_rsp st)
           = MSG_CREATED (if \<exists>body. select_rsp = Response 200 body then KW_ORANGE else KW_EXOTIC)"
  using create_truthy [OF assms(2)] assms
  by (simp add: new_session_def split_beta)

text \<open>
  C6. With no model recorded for the user, a session is created, with the model
  \<open>Orange Cat\<close>, and the model selection that follows is answered with status 500:
  \<open>new_session\<close> reports the other model's label.
\<close>

theorem new_session_label_without_recorded_model:
  "new_session json_loads (py ''u1'') (Response 200 (py ''{\"chat_id\":\"abc\"}'')) (Response 500 [])
     \<lparr>user_sessions = Map.empty, user_models = Map.empty, sent = []\<rparr>
   = (MSG_CREATED KW_EXOTIC,
      \<lparr>user_sessions = [py ''u1'' \<mapsto> JStr (py ''abc'')], user_models = Map.empty,
       sent = [CreateSession (py ''Orange Cat''),
               SelectModel (JStr (py ''abc'')) (py ''Orange Cat'')]\<rparr>)"
  by (simp add: new_session_def u_create_new_session_def u_switch_model_def raise_for_status_def
      dict_get_def py_or_def json_eval Let_def)

text \<open>
  C1. The replies \<open>handle_chat_command\<close> produces itself, the prompt for input and the
  message of a failed session creation, are returned bare. The two messages that
  \<open>_stream_reply\<close> returns in place of a reply, the retry message of an unresolved branch
  and the message of a transport failure, are returned with the watermark of the default
  configuration appended.
\<close>

theorem chat_error_messages_carry_watermark:
  "fst (handle_chat_command default_config json_loads (py ''u1'') (py ''/chat hi'')
          NetworkFault NetworkFault [Line (py ''{\"code\":\"chat_choice_shown\"}'')]
          \<lparr>user_sessions = [py ''u1'' \<mapsto> JStr (py ''s1'')], user_models = Map.empty, sent = []\<rparr>)
     = Inr (MSG_BRANCH @ WATERMARK default_config)
   \<and> fst (handle_chat_command default_config json_loads (py ''u1'') (py ''/chat hi'')
          NetworkFault NetworkFault [Fault]
          \<lparr>user_sessions = [py ''u1'' \<mapsto> JStr (py ''s1'')], user_models = Map.empty, sent = []\<rparr>)
     = Inr (MSG_FAIL @ WATERMARK default_config)
   \<and> MSG_BRANCH @ WATERMARK default_config \<noteq> MSG_BRANCH
   \<and> MSG_FAIL @ WATERMARK default_config \<noteq> MSG_FAIL
   \<and> fst (handle_chat_command default_config json_loads (py ''u1'') (py ''/chat '')
          NetworkFault NetworkFault [Fault]
          \<lparr>user_sessions = [py ''u1'' \<mapsto> JStr (py ''s1'')], user_models = Map.empty, sent = []\<rparr>)
     = Inr MSG_PROMPT
   \<and> fst (handle_chat_command default_config json_loads (py ''u1'') (py ''/chat hi'')
          NetworkFault NetworkFault [Fault]
          \<lparr>user_sessions = Map.empty, user_models = Map.empty, sent = []\<rparr>)
     = Inr MSG_CREATE_FAIL"
  by (simp add: handle_chat_command_def chat_reply_def u_stream_reply_def py_lstrip_def
      py_isspace_def dict_get_def default_config_def u_create_new_session_def json_eval Let_def)

end
